theory Spec2Isabelle
  imports Complex_Main
begin

section \<open>Python values and exceptions\<close>

text \<open>
  The species bookkeeping of FESTIM (\<^verbatim>\<open>festim/species.py\<close>,
  \<^verbatim>\<open>festim/subdomain/surface_subdomain.py\<close>) is dynamically typed: one attribute
  holds a number, a finite-element field or a Python function. The values the code
  inspects are a tagged union. The type parameter \<open>'o\<close> stands for the handles of
  objects owned by the finite-element library (a mesh, the degrees of freedom of a
  function, a volume subdomain); the code never looks inside them.

  Python floats are carried as the reals they denote: the code passes them on, and the
  only arithmetic it does on a number is to subtract the integer 0, which is exact.
  Exceptions are values; \<open>ValueError\<close> carries its message.
\<close>

datatype pyerror = ValueError string | TypeError | AttributeError | IndexError

datatype 'o pyval =
    PyNone
  | PyBool bool
  | PyInt int
  | PyFloat real
  | PyList "'o pyval list"
  | Constant 'o "'o pyval"
  | Function 'o
  | SpatialCoordinate 'o
  | Expr string 'o
  | Add "'o pyval" "'o pyval"
  | Sub "'o pyval" "'o pyval"

text \<open>
  \<open>Constant mesh v\<close> is a \<^verbatim>\<open>dolfinx.fem.Constant\<close> on a mesh with current value
  \<open>v\<close>; \<open>Function f\<close> a \<^verbatim>\<open>dolfinx.fem.Function\<close>; \<open>SpatialCoordinate mesh\<close> the
  result of \<^verbatim>\<open>ufl.SpatialCoordinate(mesh)\<close>; \<open>Expr c h\<close> any other UFL expression
  object, of class \<open>c\<close>; \<open>Add a b\<close> and \<open>Sub a b\<close> the symbolic expressions that
  \<^verbatim>\<open>a + b\<close> and \<^verbatim>\<open>a - b\<close> build when an operand is a UFL expression.

  \<open>is_number v\<close> is \<^verbatim>\<open>isinstance(v, (int, float))\<close> (\<^verbatim>\<open>bool\<close> is a subclass of
  \<^verbatim>\<open>int\<close>) and \<open>is_ufl v\<close> is
  \<^verbatim>\<open>isinstance(v, (fem.Function, ufl.core.expr.Expr))\<close>. The test
  \<^verbatim>\<open>isinstance(v, fem.Constant)\<close> is a match on the constructor \<open>Constant\<close>.
\<close>

fun is_number :: "'o pyval \<Rightarrow> bool" where
  "is_number (PyBool b) = True"
| "is_number (PyInt i) = True"
| "is_number (PyFloat r) = True"
| "is_number v = False"

fun is_ufl :: "'o pyval \<Rightarrow> bool" where
  "is_ufl (Constant m v) = True"
| "is_ufl (Function f) = True"
| "is_ufl (SpatialCoordinate m) = True"
| "is_ufl (Expr c h) = True"
| "is_ufl (Add a b) = True"
| "is_ufl (Sub a b) = True"
| "is_ufl v = False"

text \<open>
  \<open>type_repr v\<close> is the text of \<^verbatim>\<open>type(v)\<close> inside an f-string, for example
  \<^verbatim>\<open><class 'list'>\<close>.
\<close>

fun class_name :: "'o pyval \<Rightarrow> string" where
  "class_name PyNone = ''NoneType''"
| "class_name (PyBool b) = ''bool''"
| "class_name (PyInt i) = ''int''"
| "class_name (PyFloat r) = ''float''"
| "class_name (PyList vs) = ''list''"
| "class_name (Constant m v) = ''dolfinx.fem.function.Constant''"
| "class_name (Function f) = ''dolfinx.fem.function.Function''"
| "class_name (SpatialCoordinate m) = ''ufl.geometry.SpatialCoordinate''"
| "class_name (Expr c h) = c"
| "class_name (Add a b) = ''ufl.algebra.Sum''"
| "class_name (Sub a b) = ''ufl.algebra.Sum''"

definition type_repr :: "'o pyval \<Rightarrow> string" where
  "type_repr v = ''<class '' @ [CHR 0x27] @ class_name v @ [CHR 0x27] @ ''>''"

text \<open>
  \<^verbatim>\<open>float(t)\<close>: a number converts to a float, a scalar constant converts its value,
  anything else fails.
\<close>

fun py_float :: "'o pyval \<Rightarrow> pyerror + 'o pyval" where
  "py_float (PyBool b) = Inr (PyFloat (of_bool b))"
| "py_float (PyInt i) = Inr (PyFloat (of_int i))"
| "py_float (PyFloat r) = Inr (PyFloat r)"
| "py_float (Constant m v) = (if is_number v then py_float v else Inl TypeError)"
| "py_float v = Inl TypeError"

text \<open>
  Python arithmetic on two numbers: integers (booleans among them) stay integers,
  anything else is a float.
\<close>

fun as_int :: "'o pyval \<Rightarrow> int option" where
  "as_int (PyBool b) = Some (of_bool b)"
| "as_int (PyInt i) = Some i"
| "as_int v = None"

fun as_real :: "'o pyval \<Rightarrow> real option" where
  "as_real (PyBool b) = Some (of_bool b)"
| "as_real (PyInt i) = Some (of_int i)"
| "as_real (PyFloat r) = Some r"
| "as_real v = None"

fun is_zero :: "'o pyval \<Rightarrow> bool" where
  "is_zero (PyBool b) = (\<not> b)"
| "is_zero (PyInt i) = (i = 0)"
| "is_zero (PyFloat r) = (r = 0)"
| "is_zero v = False"

definition num_op :: "(int \<Rightarrow> int \<Rightarrow> int) \<Rightarrow> (real \<Rightarrow> real \<Rightarrow> real) \<Rightarrow> 'o pyval \<Rightarrow> 'o pyval
    \<Rightarrow> pyerror + 'o pyval" where
  "num_op iop rop a b =
     (case (as_int a, as_int b) of
        (Some i, Some j) \<Rightarrow> Inr (PyInt (iop i j))
      | _ \<Rightarrow> (case (as_real a, as_real b) of
                (Some x, Some y) \<Rightarrow> Inr (PyFloat (rop x y))
              | _ \<Rightarrow> Inl TypeError))"

text \<open>
  The field library checks the operands of a sum. Every UFL expression has a shape, a
  tuple of free indices and their dimensions; a number counts as a scalar without free
  indices. \<^verbatim>\<open>ufl.algebra.Sum\<close> raises ValueError when the two operands differ in one
  of the three, and \<^verbatim>\<open>a - b\<close> is the sum of \<^verbatim>\<open>a\<close> and \<^verbatim>\<open>-b\<close>. The tensor type
  of an object owned by the library is looked up by its handle (\<open>\<tau>\<close>); for the handle
  of a mesh it is the type of the coordinate field of the mesh, a vector of the
  geometric dimension. A function and a spatial coordinate are terminals and have no
  free indices. A constant has the shape of its value.
\<close>

record tensor_type =
  ufl_shape :: "nat list"
  ufl_free_indices :: "nat list"
  ufl_index_dimensions :: "nat list"

definition scalar_type :: tensor_type where
  "scalar_type = \<lparr>ufl_shape = [], ufl_free_indices = [], ufl_index_dimensions = []\<rparr>"

fun value_shape :: "'o pyval \<Rightarrow> nat list" where
  "value_shape (PyList []) = [0]"
| "value_shape (PyList (v # vs)) = Suc (length vs) # value_shape v"
| "value_shape v = []"

fun ufl_type :: "('o \<Rightarrow> tensor_type) \<Rightarrow> 'o pyval \<Rightarrow> tensor_type" where
  "ufl_type \<tau> (Constant m v) = scalar_type\<lparr>ufl_shape := value_shape v\<rparr>"
| "ufl_type \<tau> (Function f) = scalar_type\<lparr>ufl_shape := ufl_shape (\<tau> f)\<rparr>"
| "ufl_type \<tau> (SpatialCoordinate m) = scalar_type\<lparr>ufl_shape := ufl_shape (\<tau> m)\<rparr>"
| "ufl_type \<tau> (Expr c h) = \<tau> h"
| "ufl_type \<tau> (Add a b) = ufl_type \<tau> a"
| "ufl_type \<tau> (Sub a b) = ufl_type \<tau> a"
| "ufl_type \<tau> v = scalar_type"

definition different_shapes :: string where
  "different_shapes = ''Can'' @ [CHR 0x27] @ ''t add expressions with different shapes.''"

definition different_free_indices :: string where
  "different_free_indices =
     ''Can'' @ [CHR 0x27] @ ''t add expressions with different free indices.''"

definition different_index_dimensions :: string where
  "different_index_dimensions =
     ''Can'' @ [CHR 0x27] @ ''t add expressions with different index dimensions.''"

definition ufl_sum_check :: "('o \<Rightarrow> tensor_type) \<Rightarrow> 'o pyval \<Rightarrow> 'o pyval \<Rightarrow> pyerror option" where
  "ufl_sum_check \<tau> a b =
     (if ufl_shape (ufl_type \<tau> b) \<noteq> ufl_shape (ufl_type \<tau> a)
        then Some (ValueError different_shapes)
      else if ufl_free_indices (ufl_type \<tau> b) \<noteq> ufl_free_indices (ufl_type \<tau> a)
        then Some (ValueError different_free_indices)
      else if ufl_index_dimensions (ufl_type \<tau> b) \<noteq> ufl_index_dimensions (ufl_type \<tau> a)
        then Some (ValueError different_index_dimensions)
      else None)"

text \<open>
  \<open>ufl_operands a b\<close>: one operand is a UFL expression and the other a UFL expression
  or a number, the pairs for which the operators of the library answer.
\<close>

definition ufl_operands :: "'o pyval \<Rightarrow> 'o pyval \<Rightarrow> bool" where
  "ufl_operands a b \<longleftrightarrow> (is_ufl a \<and> (is_ufl b \<or> is_number b)) \<or> (is_number a \<and> is_ufl b)"

text \<open>
  \<^verbatim>\<open>a + b\<close>. Two numbers are added and two lists are concatenated. A number equal to
  zero on the left of a UFL expression gives the expression itself, unchecked: the
  library's \<^verbatim>\<open>__radd__\<close> does so for the sake of \<^verbatim>\<open>sum\<close>. Otherwise, with a UFL
  expression among the operands, the sum is checked, and a zero on the right is dropped.
  Every other pair of operands raises TypeError.
\<close>

definition py_add :: "('o \<Rightarrow> tensor_type) \<Rightarrow> 'o pyval \<Rightarrow> 'o pyval \<Rightarrow> pyerror + 'o pyval" where
  "py_add \<tau> a b =
     (if is_number a \<and> is_number b then num_op (+) (+) a b
      else if is_number a \<and> is_zero a \<and> is_ufl b then Inr b
      else if ufl_operands a b then
        (case ufl_sum_check \<tau> a b of
           Some e \<Rightarrow> Inl e
         | None \<Rightarrow> if is_zero b then Inr a else Inr (Add a b))
      else (case (a, b) of
              (PyList xs, PyList ys) \<Rightarrow> Inr (PyList (xs @ ys))
            | _ \<Rightarrow> Inl TypeError))"

text \<open>
  \<^verbatim>\<open>a - b\<close>. Two numbers are subtracted. With a UFL expression among the operands the
  sum of \<^verbatim>\<open>a\<close> and \<^verbatim>\<open>-b\<close> is checked, and a zero \<^verbatim>\<open>b\<close> is dropped. Every other
  pair of operands raises TypeError.
\<close>

definition py_sub :: "('o \<Rightarrow> tensor_type) \<Rightarrow> 'o pyval \<Rightarrow> 'o pyval \<Rightarrow> pyerror + 'o pyval" where
  "py_sub \<tau> a b =
     (if is_number a \<and> is_number b then num_op (-) (-) a b
      else if ufl_operands a b then
        (case ufl_sum_check \<tau> a b of
           Some e \<Rightarrow> Inl e
         | None \<Rightarrow> if is_zero b then Inr a else Inr (Sub a b))
      else Inl TypeError)"

text \<open>
  \<^verbatim>\<open>sum(xs)\<close> over the \<^verbatim>\<open>solution\<close> slots of species: the builtin starts from the
  integer 0 and adds the elements from the left. A slot holds a solver function or
  \<^verbatim>\<open>None\<close>; adding \<^verbatim>\<open>None\<close> raises TypeError.
\<close>

fun py_sum_from :: "('o \<Rightarrow> tensor_type) \<Rightarrow> 'o pyval \<Rightarrow> 'o option list \<Rightarrow> pyerror + 'o pyval" where
  "py_sum_from \<tau> acc [] = Inr acc"
| "py_sum_from \<tau> acc (None # rest) = Inl TypeError"
| "py_sum_from \<tau> acc (Some f # rest) =
     (case py_add \<tau> acc (Function f) of
        Inl e \<Rightarrow> Inl e
      | Inr acc' \<Rightarrow> py_sum_from \<tau> acc' rest)"

definition py_sum :: "('o \<Rightarrow> tensor_type) \<Rightarrow> 'o option list \<Rightarrow> pyerror + 'o pyval" where
  "py_sum \<tau> xs = py_sum_from \<tau> (PyInt 0) xs"

text \<open>
  The exceptions that the arithmetic above can raise: TypeError, and the three
  ValueErrors of the library's check.
\<close>

definition field_error :: "pyerror \<Rightarrow> bool" where
  "field_error e \<longleftrightarrow> e = TypeError \<or> e = ValueError different_shapes
     \<or> e = ValueError different_free_indices \<or> e = ValueError different_index_dimensions"

text \<open>
  The meaning of a symbolic expression at one point of the domain, given the value
  \<open>\<rho>\<close> of every field there: what "V minus the sum of the solutions" is measured
  against.
\<close>

fun value_at :: "('o pyval \<Rightarrow> real) \<Rightarrow> 'o pyval \<Rightarrow> real" where
  "value_at \<rho> (PyBool b) = of_bool b"
| "value_at \<rho> (PyInt i) = of_int i"
| "value_at \<rho> (PyFloat r) = r"
| "value_at \<rho> (Constant m v) = value_at \<rho> v"
| "value_at \<rho> (Add a b) = value_at \<rho> a + value_at \<rho> b"
| "value_at \<rho> (Sub a b) = value_at \<rho> a - value_at \<rho> b"
| "value_at \<rho> v = \<rho> v"

text \<open>\<^verbatim>\<open>str(i)\<close> for an integer, as an f-string formats it.\<close>

definition digit_char :: "nat \<Rightarrow> char" where
  "digit_char d = ''0123456789'' ! d"

fun str_nat :: "nat \<Rightarrow> string" where
  "str_nat k = (if k < 10 then [digit_char k] else str_nat (k div 10) @ [digit_char (k mod 10)])"

definition str_int :: "int \<Rightarrow> string" where
  "str_int i = (if i < 0 then ''-'' @ str_nat (nat (- i)) else str_nat (nat i))"

text \<open>
  What that rendering is measured against: a string is the decimal numeral of a natural
  number when it is a non-empty string of the digits 0 to 9, has no leading zero unless
  it is the single digit 0, and its digits, read in base ten, give the number.
\<close>

definition is_digit :: "char \<Rightarrow> bool" where
  "is_digit c \<longleftrightarrow> (48::nat) \<le> of_char c \<and> of_char c \<le> (57::nat)"

definition decimal_value :: "string \<Rightarrow> nat" where
  "decimal_value ds = foldl (\<lambda>acc c. 10 * acc + (of_char c - 48)) 0 ds"

definition decimal_numeral :: "string \<Rightarrow> nat \<Rightarrow> bool" where
  "decimal_numeral ds k \<longleftrightarrow>
     ds \<noteq> [] \<and> list_all is_digit ds \<and> (hd ds \<noteq> CHR ''0'' \<or> ds = ''0'') \<and> decimal_value ds = k"

text \<open>\<^verbatim>\<open>f"{name}"\<close> for a name that may be \<^verbatim>\<open>None\<close>.\<close>

fun str_name :: "string option \<Rightarrow> string" where
  "str_name None = ''None''"
| "str_name (Some s) = s"

section \<open>Python functions as value specifications\<close>

text \<open>
  A Python function object, as far as the code observes it: the names its code object
  lists and what a keyword call returns or raises. \<^verbatim>\<open>__code__.co_varnames\<close> is the
  tuple of the declared parameter names followed by the names of the local variables of
  the body. A call is a function of its keyword arguments only: the functions are taken
  to be pure.
\<close>

record 'o pyfunction =
  argnames :: "string list"
  localnames :: "string list"
  call :: "(string \<rightharpoonup> 'o pyval) \<Rightarrow> pyerror + 'o pyval"

definition co_varnames :: "'o pyfunction \<Rightarrow> string list" where
  "co_varnames f = argnames f @ localnames f"

text \<open>
  The attribute \<^verbatim>\<open>n\<close>: a data value, a Python function, or some other callable
  object that has no \<^verbatim>\<open>__code__\<close> attribute (a class, a builtin, a
  \<^verbatim>\<open>functools.partial\<close>). UFL expression classes define \<^verbatim>\<open>__call__\<close>, so
  \<^verbatim>\<open>callable\<close> is true of a field too, and a field has no \<^verbatim>\<open>__code__\<close>
  either.
\<close>

datatype 'o value_spec = Data "'o pyval" | FunctionObject "'o pyfunction" | OtherCallable

fun py_callable :: "'o value_spec \<Rightarrow> bool" where
  "py_callable (Data v) = is_ufl v"
| "py_callable (FunctionObject f) = True"
| "py_callable OtherCallable = True"

section \<open>The data model\<close>

text \<open>
  Objects are shared by reference: an implicit species reads the solutions of the
  species in \<^verbatim>\<open>others\<close> after the solver has bound them, and a trap's reaction
  refers to the very species the trap created. References are addresses into a store.
\<close>

type_synonym addr = nat

record 'o implicit_species =
  name :: "string option"
  n :: "'o value_spec"
  others :: "addr list option"
  value_fenics :: "'o pyval option"

text \<open>
  \<^verbatim>\<open>ImplicitSpecies.__init__\<close> does not create \<^verbatim>\<open>value_fenics\<close>; \<open>None\<close> in that
  field is the missing attribute, and reading it raises AttributeError.
\<close>

definition ImplicitSpecies_init ::
    "'o value_spec \<Rightarrow> addr list option \<Rightarrow> string option \<Rightarrow> 'o implicit_species" where
  "ImplicitSpecies_init n0 others0 name0 =
     \<lparr>implicit_species.name = name0, implicit_species.n = n0, others = others0,
      value_fenics = None\<rparr>"

record 'o species =
  name :: "string option"
  mobile :: bool
  solution :: "'o option"
  prev_solution :: "'o option"
  test_function :: "'o option"
  sub_function_space :: "'o option"
  post_processing_solution :: "'o option"
  collapsed_function_space :: "'o option"

definition Species_init :: "string option \<Rightarrow> bool \<Rightarrow> 'o species" where
  "Species_init name0 mobile0 =
     \<lparr>species.name = name0, mobile = mobile0, solution = None, prev_solution = None,
      test_function = None, sub_function_space = None, post_processing_solution = None,
      collapsed_function_space = None\<rparr>"

datatype reactant_ref = SpeciesRef addr | ImplicitRef addr

record 'o reaction =
  reactant :: "reactant_ref list"
  product :: addr
  k_0 :: "'o pyval"
  E_k :: "'o pyval"
  p_0 :: "'o pyval"
  E_p :: "'o pyval"
  volume :: 'o

text \<open>
  Modelled from the spec: the class \<^verbatim>\<open>festim.Reaction\<close> is not among the sources.
  The spec (section 6) gives its constructor as a consumer that accepts
  \<open>(reactant_list, product, k_0, E_k, p_0, E_p, volume)\<close> and is opaque to this
  code: it keeps the seven arguments.
\<close>

definition Reaction_init ::
    "reactant_ref list \<Rightarrow> addr \<Rightarrow> 'o pyval \<Rightarrow> 'o pyval \<Rightarrow> 'o pyval \<Rightarrow> 'o pyval \<Rightarrow> 'o
      \<Rightarrow> 'o reaction" where
  "Reaction_init reactant0 product0 k E p E' v =
     \<lparr>reactant = reactant0, product = product0, reaction.k_0 = k, reaction.E_k = E,
      reaction.p_0 = p, reaction.E_p = E', reaction.volume = v\<rparr>"

text \<open>
  \<^verbatim>\<open>class Trap(Species)\<close>. \<^verbatim>\<open>__init__\<close> sets \<^verbatim>\<open>trapped_concentration\<close> and
  \<^verbatim>\<open>reaction\<close> to \<^verbatim>\<open>None\<close> and does not create \<^verbatim>\<open>empty_trap_sites\<close>.
\<close>

record 'o trap = "'o species" +
  mobile_species :: addr
  k_0 :: "'o pyval"
  E_k :: "'o pyval"
  p_0 :: "'o pyval"
  E_p :: "'o pyval"
  n :: "'o value_spec"
  volume :: 'o
  trapped_concentration :: "addr option"
  empty_trap_sites :: "addr option"
  reaction :: "'o reaction option"

record surface_subdomain =
  surface_id :: int

text \<open>
  The store: the objects of this code by address, the tensor type of every object of the
  field library by its handle, and the next unused address.
\<close>

record 'o heap =
  species_of :: "addr \<Rightarrow> 'o species"
  implicit_of :: "addr \<Rightarrow> 'o implicit_species"
  surface_of :: "addr \<Rightarrow> surface_subdomain"
  tensor_type_of :: "'o \<Rightarrow> tensor_type"
  next_addr :: addr

definition new_species :: "'o heap \<Rightarrow> 'o species \<Rightarrow> addr \<times> 'o heap" where
  "new_species h s =
     (next_addr h, h\<lparr>species_of := (species_of h)(next_addr h := s), next_addr := Suc (next_addr h)\<rparr>)"

definition new_implicit :: "'o heap \<Rightarrow> 'o implicit_species \<Rightarrow> addr \<times> 'o heap" where
  "new_implicit h s =
     (next_addr h, h\<lparr>implicit_of := (implicit_of h)(next_addr h := s), next_addr := Suc (next_addr h)\<rparr>)"

section \<open>Species and traps\<close>

text \<open>The property \<^verbatim>\<open>Species.concentration\<close> returns the \<^verbatim>\<open>solution\<close> slot.\<close>

definition species_concentration :: "('o, 'z) species_scheme \<Rightarrow> 'o option" where
  "species_concentration self = solution self"

text \<open>
  \<^verbatim>\<open>Trap.__init__\<close> calls \<^verbatim>\<open>super().__init__(name)\<close>, which leaves
  \<^verbatim>\<open>mobile\<close> at its default \<^verbatim>\<open>True\<close>.
\<close>

definition Trap_init ::
    "string option \<Rightarrow> addr \<Rightarrow> 'o pyval \<Rightarrow> 'o pyval \<Rightarrow> 'o pyval \<Rightarrow> 'o pyval \<Rightarrow> 'o value_spec \<Rightarrow> 'o
      \<Rightarrow> 'o trap" where
  "Trap_init name0 mobile_species0 k E p E' n0 v =
     \<lparr>species.name = name0, mobile = True, solution = None, prev_solution = None,
      test_function = None, sub_function_space = None, post_processing_solution = None,
      collapsed_function_space = None,
      mobile_species = mobile_species0, trap.k_0 = k, trap.E_k = E, trap.p_0 = p,
      trap.E_p = E', trap.n = n0, trap.volume = v,
      trapped_concentration = None, empty_trap_sites = None, reaction = None\<rparr>"

text \<open>
  \<^verbatim>\<open>Trap.create_species_and_reaction\<close> creates two objects, stores references to
  them in the trap and has no return statement: the call evaluates to \<^verbatim>\<open>None\<close>.
  The result is that value, the store and the trap afterwards.
\<close>

definition create_species_and_reaction ::
    "'o heap \<Rightarrow> 'o trap \<Rightarrow> 'o pyval \<times> 'o heap \<times> 'o trap" where
  "create_species_and_reaction h self =
     (let (tc, h1) = new_species h (Species_init (species.name self) False);
          (ets, h2) = new_implicit h1 (ImplicitSpecies_init (trap.n self) (Some [tc]) None);
          r = Reaction_init [SpeciesRef (mobile_species self), ImplicitRef ets] tc
                (trap.k_0 self) (trap.E_k self) (trap.p_0 self) (trap.E_p self)
                (trap.volume self)
      in (PyNone, h2,
          self\<lparr>trapped_concentration := Some tc, empty_trap_sites := Some ets,
               reaction := Some r\<rparr>))"

section \<open>Implicit species\<close>

text \<open>
  The loop of \<^verbatim>\<open>ImplicitSpecies.concentration\<close> over \<^verbatim>\<open>self.others\<close>: the result
  is the exception of the first species without a solution, if there is one.
\<close>

fun check_others :: "'o heap \<Rightarrow> 'o implicit_species \<Rightarrow> addr list \<Rightarrow> pyerror option" where
  "check_others h self [] = None"
| "check_others h self (other # rest) =
     (if solution (species_of h other) = None
      then Some (ValueError (''Cannot compute concentration of '' @ str_name (implicit_species.name self)
                   @ '' because '' @ str_name (species.name (species_of h other))
                   @ '' has no solution''))
      else check_others h self rest)"

text \<open>
  \<^verbatim>\<open>len(self.others)\<close> raises TypeError when \<^verbatim>\<open>others\<close> is \<^verbatim>\<open>None\<close>. In the
  returned expression \<^verbatim>\<open>self.value_fenics\<close> is read before the sum is taken.
\<close>

definition concentration :: "'o heap \<Rightarrow> 'o implicit_species \<Rightarrow> pyerror + 'o pyval" where
  "concentration h self =
     (case others self of
        None \<Rightarrow> Inl TypeError
      | Some os \<Rightarrow>
          (case (if length os > 0 then check_others h self os else None) of
             Some e \<Rightarrow> Inl e
           | None \<Rightarrow>
               (case value_fenics self of
                  None \<Rightarrow> Inl AttributeError
                | Some V \<Rightarrow>
                    (case py_sum (tensor_type_of h)
                            (map (\<lambda>other. solution (species_of h other)) os) of
                       Inl e \<Rightarrow> Inl e
                     | Inr S \<Rightarrow> py_sub (tensor_type_of h) V S))))"

text \<open>
  Modelled from the spec: the helper \<^verbatim>\<open>festim.as_fenics_constant\<close> is not among the
  sources. The spec (section 6) gives it as the constructor that wraps a scalar as a
  constant field on the mesh.
\<close>

definition as_fenics_constant :: "'o \<Rightarrow> 'o pyval \<Rightarrow> 'o pyval" where
  "as_fenics_constant mesh v = Constant mesh v"

text \<open>
  \<^verbatim>\<open>ImplicitSpecies.create_value_fenics(mesh, t)\<close>. The three uses of
  \<^verbatim>\<open>self.n(t=float(t))\<close> are one call of a pure function. A value of \<^verbatim>\<open>n\<close> that
  is neither a number, nor a field, nor callable matches no branch and binds nothing.
\<close>

definition create_value_fenics ::
    "'o implicit_species \<Rightarrow> 'o \<Rightarrow> 'o pyval \<Rightarrow> pyerror + 'o implicit_species" where
  "create_value_fenics self mesh t =
     (let x = SpatialCoordinate mesh in
      case implicit_species.n self of
        Data v \<Rightarrow>
          if is_number v then Inr (self\<lparr>value_fenics := Some (as_fenics_constant mesh v)\<rparr>)
          else if is_ufl v then Inr (self\<lparr>value_fenics := Some v\<rparr>)
          else Inr self
      | OtherCallable \<Rightarrow> Inl AttributeError
      | FunctionObject f \<Rightarrow>
          (let arguments = co_varnames f in
           if ''t'' \<in> set arguments \<and> ''x'' \<notin> set arguments \<and> ''T'' \<notin> set arguments then
             (case py_float t of
                Inl e \<Rightarrow> Inl e
              | Inr tf \<Rightarrow>
                  (case call f [''t'' \<mapsto> tf] of
                     Inl e \<Rightarrow> Inl e
                   | Inr r \<Rightarrow>
                       if \<not> is_number r
                       then Inl (ValueError (''self.value should return a float or an int, not ''
                                   @ type_repr r @ '' ''))
                       else Inr (self\<lparr>value_fenics := Some (as_fenics_constant mesh r)\<rparr>)))
           else
             (let kwargs = Map.empty;
                  kwargs = (if ''t'' \<in> set arguments then kwargs(''t'' \<mapsto> t) else kwargs);
                  kwargs = (if ''x'' \<in> set arguments then kwargs(''x'' \<mapsto> x) else kwargs)
              in case call f kwargs of
                   Inl e \<Rightarrow> Inl e
                 | Inr r \<Rightarrow> Inr (self\<lparr>value_fenics := Some r\<rparr>))))"

text \<open>
  \<^verbatim>\<open>ImplicitSpecies.update_density(t)\<close>. Reading \<^verbatim>\<open>self.n.__code__\<close> raises
  AttributeError for a callable that is not a Python function. The assignment to
  \<^verbatim>\<open>self.value_fenics.value\<close> overwrites the value of the constant in place; the
  constant keeps its mesh.
\<close>

definition update_density ::
    "'o implicit_species \<Rightarrow> 'o pyval \<Rightarrow> pyerror + 'o implicit_species" where
  "update_density self t =
     (if py_callable (implicit_species.n self) then
        (case implicit_species.n self of
           FunctionObject f \<Rightarrow>
             (let arguments = co_varnames f in
              case value_fenics self of
                None \<Rightarrow> Inl AttributeError
              | Some vf \<Rightarrow>
                  (case vf of
                     Constant m old \<Rightarrow>
                       if ''t'' \<in> set arguments then
                         (case call f [''t'' \<mapsto> t] of
                            Inl e \<Rightarrow> Inl e
                          | Inr r \<Rightarrow> Inr (self\<lparr>value_fenics := Some (Constant m r)\<rparr>))
                       else Inr self
                   | _ \<Rightarrow> Inr self))
         | _ \<Rightarrow> Inl AttributeError)
      else Inr self)"

section \<open>Lookup helpers\<close>

fun find_species_from_name :: "'o heap \<Rightarrow> string \<Rightarrow> addr list \<Rightarrow> pyerror + addr" where
  "find_species_from_name h name0 [] =
     Inl (ValueError (''Species '' @ name0 @ '' not found in list of species''))"
| "find_species_from_name h name0 (spe # rest) =
     (if species.name (species_of h spe) = Some name0 then Inr spe
      else find_species_from_name h name0 rest)"

fun find_surface_from_id :: "'o heap \<Rightarrow> int \<Rightarrow> addr list \<Rightarrow> pyerror + addr" where
  "find_surface_from_id h id0 [] =
     Inl (ValueError (''id '' @ str_int id0 @ '' not found in list of surfaces''))"
| "find_surface_from_id h id0 (surf # rest) =
     (if surface_id (surface_of h surf) = id0 then Inr surf
      else find_surface_from_id h id0 rest)"

section \<open>Surface subdomains\<close>

text \<open>
  \<^verbatim>\<open>dolfinx.mesh.locate_entities_boundary(mesh, fdim, marker)\<close> belongs to the mesh
  library and is a parameter here: it returns the ordered indices of the boundary
  entities of dimension \<open>fdim\<close> whose points the marker accepts. The method passes the
  marker that accepts every point and returns \<^verbatim>\<open>indices[0]\<close>; indexing an empty array
  raises IndexError.
\<close>

definition locate_boundary_facet_indices ::
    "('o \<Rightarrow> int \<Rightarrow> ('p \<Rightarrow> bool) \<Rightarrow> int list) \<Rightarrow> surface_subdomain \<Rightarrow> 'o \<Rightarrow> int
      \<Rightarrow> pyerror + 'o pyval" where
  "locate_boundary_facet_indices locate_entities_boundary self mesh fdim =
     (let indices = locate_entities_boundary mesh fdim (\<lambda>x. True) in
      case indices of
        [] \<Rightarrow> Inl IndexError
      | i # rest \<Rightarrow> Inr (PyInt i))"

section \<open>Example objects\<close>

text \<open>
  Concrete objects at which the theorems below are instantiated. The handle 0 is a
  one-dimensional mesh, whose coordinate field is a vector of one component; every other
  handle is a scalar field.
\<close>

definition example_heap :: "nat heap" where
  "example_heap =
     \<lparr>species_of = (\<lambda>a. Species_init None True)
        (0 := Species_init (Some ''mobile'') True,
         1 := Species_init (Some ''H'') True,
         2 := Species_init (Some ''H'') False,
         3 := (Species_init (Some ''A'') False)\<lparr>solution := Some 10\<rparr>,
         4 := (Species_init (Some ''B'') False)\<lparr>solution := Some 11\<rparr>),
      implicit_of = (\<lambda>a. ImplicitSpecies_init (Data PyNone) None None),
      surface_of = (\<lambda>a. \<lparr>surface_id = 0\<rparr>)(0 := \<lparr>surface_id = 3\<rparr>, 1 := \<lparr>surface_id = 3\<rparr>),
      tensor_type_of = (\<lambda>a. scalar_type)(0 := scalar_type\<lparr>ufl_shape := [1]\<rparr>),
      next_addr = 5\<rparr>"

definition example_service :: "nat \<Rightarrow> int \<Rightarrow> (int \<Rightarrow> bool) \<Rightarrow> int list" where
  "example_service mesh fdim marker = (if fdim = 1 then filter marker [4, 7, 9] else [])"

definition example_implicit :: "nat implicit_species" where
  "example_implicit =
     (ImplicitSpecies_init (Data (PyInt 5)) (Some [3, 4]) (Some ''empty''))
       \<lparr>value_fenics := Some (Function 9)\<rparr>"

definition example_trap :: "nat trap" where
  "example_trap =
     Trap_init (Some ''trapped'') 0 (PyInt 1) (PyInt 1) (PyInt 1) (PyInt 1) (Data (PyInt 1)) 7"

text \<open>
  \<^verbatim>\<open>def n(t): return 2 * t\<close>, and the same curve written with a local variable,
  \<^verbatim>\<open>def n(t): x = 2 * t; return x\<close>. A call with a keyword the function does not
  declare raises TypeError.
\<close>

definition time_curve :: "nat pyfunction" where
  "time_curve =
     \<lparr>argnames = [''t''], localnames = [],
      call = (\<lambda>kwargs. if dom kwargs = {''t''} then
                (case kwargs ''t'' of
                   Some (PyFloat r) \<Rightarrow> Inr (PyFloat (2 * r))
                 | _ \<Rightarrow> Inl TypeError)
              else Inl TypeError)\<rparr>"

definition time_curve_local_x :: "nat pyfunction" where
  "time_curve_local_x = time_curve\<lparr>localnames := [''x'']\<rparr>"

text \<open>\<^verbatim>\<open>def n(t): return [t]\<close>.\<close>

definition time_list :: "nat pyfunction" where
  "time_list =
     \<lparr>argnames = [''t''], localnames = [],
      call = (\<lambda>kwargs. if dom kwargs = {''t''} then
                (case kwargs ''t'' of Some v \<Rightarrow> Inr (PyList [v]) | None \<Rightarrow> Inl TypeError)
              else Inl TypeError)\<rparr>"

text \<open>
  \<^verbatim>\<open>def n(x): return x + x\<close>, and the same profile written with a local variable,
  \<^verbatim>\<open>def n(x): t = x; return t + x\<close>.
\<close>

definition space_profile :: "nat pyfunction" where
  "space_profile =
     \<lparr>argnames = [''x''], localnames = [],
      call = (\<lambda>kwargs. if dom kwargs = {''x''} then
                (case kwargs ''x'' of Some v \<Rightarrow> Inr (Add v v) | None \<Rightarrow> Inl TypeError)
              else Inl TypeError)\<rparr>"

definition space_profile_local_t :: "nat pyfunction" where
  "space_profile_local_t = space_profile\<lparr>localnames := [''t'']\<rparr>"

text \<open>\<^verbatim>\<open>lambda x: x\<close>.\<close>

definition identity_profile :: "nat pyfunction" where
  "identity_profile =
     \<lparr>argnames = [''x''], localnames = [],
      call = (\<lambda>kwargs. if dom kwargs = {''x''} then
                (case kwargs ''x'' of Some v \<Rightarrow> Inr v | None \<Rightarrow> Inl TypeError)
              else Inl TypeError)\<rparr>"

section \<open>The lookup helpers\<close>

text \<open>
  Both helpers are the library's \<open>List.find\<close> on the list of references, with the
  exception in place of \<open>None\<close>.
\<close>

lemma find_species_from_name_find:
  "find_species_from_name h nm sps =
     (case List.find (\<lambda>a. species.name (species_of h a) = Some nm) sps of
        Some r \<Rightarrow> Inr r
      | None \<Rightarrow> Inl (ValueError (''Species '' @ nm @ '' not found in list of species'')))"
  by (induction sps) simp_all

lemma find_surface_from_id_find:
  "find_surface_from_id h k sfs =
     (case List.find (\<lambda>a. surface_id (surface_of h a) = k) sfs of
        Some r \<Rightarrow> Inr r
      | None \<Rightarrow> Inl (ValueError (''id '' @ str_int k @ '' not found in list of surfaces'')))"
  by (induction sfs) simp_all

lemma find_first_index:
  "List.find P xs = Some r \<longleftrightarrow>
     (\<exists>i<length xs. xs ! i = r \<and> P (xs ! i) \<and> (\<forall>j<i. \<not> P (xs ! j)))"
  unfolding find_Some_iff by blast

lemma find_species_from_name_Inr:
  "find_species_from_name h nm sps = Inr r \<longleftrightarrow>
     List.find (\<lambda>a. species.name (species_of h a) = Some nm) sps = Some r"
  unfolding find_species_from_name_find by (simp split: option.splits)

lemma find_species_from_name_Inl:
  "find_species_from_name h nm sps
       = Inl (ValueError (''Species '' @ nm @ '' not found in list of species'')) \<longleftrightarrow>
     List.find (\<lambda>a. species.name (species_of h a) = Some nm) sps = None"
  unfolding find_species_from_name_find by (simp split: option.splits)

lemma find_surface_from_id_Inr:
  "find_surface_from_id h k sfs = Inr r \<longleftrightarrow>
     List.find (\<lambda>a. surface_id (surface_of h a) = k) sfs = Some r"
  unfolding find_surface_from_id_find by (simp split: option.splits)

lemma find_surface_from_id_Inl:
  "find_surface_from_id h k sfs
       = Inl (ValueError (''id '' @ str_int k @ '' not found in list of surfaces'')) \<longleftrightarrow>
     List.find (\<lambda>a. surface_id (surface_of h a) = k) sfs = None"
  unfolding find_surface_from_id_find by (simp split: option.splits)

text \<open>
  The rendering of an integer is its decimal numeral: \<open>str_nat\<close> writes the digits
  of a natural number without a leading zero, and \<open>str_int\<close> puts a minus sign before
  the numeral of the absolute value of a negative number.
\<close>

lemma digit_cases: "d < 10 \<Longrightarrow> d = 0 \<or> d = 1 \<or> d = 2 \<or> d = 3 \<or> d = 4 \<or> d = 5 \<or> d = 6 \<or> d = 7
    \<or> d = 8 \<or> d = (9::nat)"
  by arith

lemma of_char_digit_char: "d < 10 \<Longrightarrow> of_char (digit_char d) = (48 + d :: nat)"
  using digit_cases [of d] by (auto simp: digit_char_def)

lemma is_digit_digit_char: "d < 10 \<Longrightarrow> is_digit (digit_char d)"
  by (simp add: is_digit_def of_char_digit_char)

lemma digit_char_zero: "d < 10 \<Longrightarrow> digit_char d = CHR ''0'' \<longleftrightarrow> d = 0"
  using digit_cases [of d] by (auto simp: digit_char_def)

lemma decimal_value_snoc:
  "decimal_value (ds @ [c]) = 10 * decimal_value ds + (of_char c - 48)"
  by (simp add: decimal_value_def)

lemma str_nat_nonempty: "str_nat k \<noteq> []"
  by (subst str_nat.simps) simp

lemma str_nat_digits: "list_all is_digit (str_nat k)"
proof (induction k rule: str_nat.induct)
  case (1 k)
  show ?case
  proof (cases "k < 10")
    case True
    then show ?thesis by (subst str_nat.simps) (simp add: is_digit_digit_char)
  next
    case False
    with 1 have "list_all is_digit (str_nat (k div 10))" by simp
    with False show ?thesis by (subst str_nat.simps) (simp add: is_digit_digit_char)
  qed
qed

lemma str_nat_value: "decimal_value (str_nat k) = k"
proof (induction k rule: str_nat.induct)
  case (1 k)
  show ?case
  proof (cases "k < 10")
    case True
    then show ?thesis
      by (subst str_nat.simps) (simp add: decimal_value_def of_char_digit_char)
  next
    case False
    with 1 have "decimal_value (str_nat (k div 10)) = k div 10" by simp
    with False show ?thesis
      by (subst str_nat.simps) (simp add: decimal_value_snoc of_char_digit_char)
  qed
qed

lemma str_nat_leading: "0 < k \<Longrightarrow> hd (str_nat k) \<noteq> CHR ''0''"
proof (induction k rule: str_nat.induct)
  case (1 k)
  show ?case
  proof (cases "k < 10")
    case True
    with "1.prems" show ?thesis by (subst str_nat.simps) (simp add: digit_char_zero)
  next
    case False
    then have "0 < k div 10" by simp
    with 1 False have "hd (str_nat (k div 10)) \<noteq> CHR ''0''" by simp
    with False show ?thesis
      by (subst str_nat.simps) (simp add: str_nat_nonempty)
  qed
qed

lemma str_nat_zero: "str_nat 0 = ''0''"
  by (simp add: digit_char_def)

lemma str_nat_decimal_numeral: "decimal_numeral (str_nat k) k"
proof (cases "k = 0")
  case True
  then show ?thesis
    using str_nat_digits [of 0] str_nat_value [of 0]
    by (simp add: decimal_numeral_def str_nat_zero del: str_nat.simps)
next
  case False
  then show ?thesis
    by (simp add: decimal_numeral_def str_nat_nonempty str_nat_digits str_nat_value
          str_nat_leading del: str_nat.simps)
qed

lemma str_int_decimal:
  "(0 \<le> k \<longrightarrow> decimal_numeral (str_int k) (nat k))
   \<and> (k < 0 \<longrightarrow> (\<exists>ds. str_int k = CHR ''-'' # ds \<and> decimal_numeral ds (nat (- k))))"
  by (simp add: str_int_def str_nat_decimal_numeral del: str_nat.simps)

text \<open>
  Claim C9. \<^verbatim>\<open>find_species_from_name\<close> and \<^verbatim>\<open>find_surface_from_id\<close> scan the list
  in order. The result is the reference \<open>r\<close> exactly when \<open>r\<close> stands at the first
  position whose object has the queried name (id), so with duplicate keys the entry
  earliest in the list wins; and the call raises the ValueError whose message holds the
  queried key exactly when no entry matches. The name stands in the message as it is, and
  the id as its decimal numeral, with a minus sign when it is negative.
\<close>

theorem lookup_first_match:
  "(find_species_from_name h nm sps = Inr r \<longleftrightarrow>
      (\<exists>i<length sps. sps ! i = r \<and> species.name (species_of h (sps ! i)) = Some nm
         \<and> (\<forall>j<i. species.name (species_of h (sps ! j)) \<noteq> Some nm)))
   \<and> (find_species_from_name h nm sps
          = Inl (ValueError (''Species '' @ nm @ '' not found in list of species''))
        \<longleftrightarrow> (\<forall>a\<in>set sps. species.name (species_of h a) \<noteq> Some nm))
   \<and> (find_surface_from_id h k sfs = Inr r' \<longleftrightarrow>
      (\<exists>i<length sfs. sfs ! i = r' \<and> surface_id (surface_of h (sfs ! i)) = k
         \<and> (\<forall>j<i. surface_id (surface_of h (sfs ! j)) \<noteq> k)))
   \<and> (find_surface_from_id h k sfs
          = Inl (ValueError (''id '' @ str_int k @ '' not found in list of surfaces''))
        \<longleftrightarrow> (\<forall>a\<in>set sfs. surface_id (surface_of h a) \<noteq> k))
   \<and> (0 \<le> k \<longrightarrow> decimal_numeral (str_int k) (nat k))
   \<and> (k < 0 \<longrightarrow> (\<exists>ds. str_int k = CHR ''-'' # ds \<and> decimal_numeral ds (nat (- k))))"
proof -
  have "(find_species_from_name h nm sps = Inr r \<longleftrightarrow>
      (\<exists>i<length sps. sps ! i = r \<and> species.name (species_of h (sps ! i)) = Some nm
         \<and> (\<forall>j<i. species.name (species_of h (sps ! j)) \<noteq> Some nm)))
   \<and> (find_species_from_name h nm sps
          = Inl (ValueError (''Species '' @ nm @ '' not found in list of species''))
        \<longleftrightarrow> (\<forall>a\<in>set sps. species.name (species_of h a) \<noteq> Some nm))
   \<and> (find_surface_from_id h k sfs = Inr r' \<longleftrightarrow>
      (\<exists>i<length sfs. sfs ! i = r' \<and> surface_id (surface_of h (sfs ! i)) = k
         \<and> (\<forall>j<i. surface_id (surface_of h (sfs ! j)) \<noteq> k)))
   \<and> (find_surface_from_id h k sfs
          = Inl (ValueError (''id '' @ str_int k @ '' not found in list of surfaces''))
        \<longleftrightarrow> (\<forall>a\<in>set sfs. surface_id (surface_of h a) \<noteq> k))"
    unfolding find_species_from_name_Inr find_species_from_name_Inl
      find_surface_from_id_Inr find_surface_from_id_Inl find_first_index find_None_iff
    by blast
  with str_int_decimal [of k] show ?thesis by blast
qed

text \<open>
  In the example store the species at addresses 1 and 2 are both named H, and the
  surfaces at 0 and 1 both have id 3: the entry listed first is returned.
\<close>

theorem lookup_first_match_witness:
  "find_species_from_name example_heap ''H'' [2, 1, 0] = Inr 2
   \<and> find_species_from_name example_heap ''T'' [2, 1, 0]
        = Inl (ValueError ''Species T not found in list of species'')
   \<and> find_surface_from_id example_heap 3 [1, 0] = Inr 1
   \<and> find_surface_from_id example_heap 7 [1, 0]
        = Inl (ValueError ''id 7 not found in list of surfaces'')
   \<and> decimal_numeral ''7'' 7
   \<and> find_surface_from_id example_heap (- 12) [1, 0]
        = Inl (ValueError ''id -12 not found in list of surfaces'')
   \<and> decimal_numeral ''12'' 12"
proof -
  have s1: "\<exists>i<length [2, 1, 0::nat]. [2, 1, 0] ! i = (2::nat)
      \<and> species.name (species_of example_heap ([2, 1, 0] ! i)) = Some ''H''
      \<and> (\<forall>j<i. species.name (species_of example_heap ([2, 1, 0] ! j)) \<noteq> Some ''H'')"
    by (rule exI[of _ 0]) (simp add: example_heap_def Species_init_def)
  have s2: "\<forall>a\<in>set [2, 1, 0::nat]. species.name (species_of example_heap a) \<noteq> Some ''T''"
    by (simp add: example_heap_def Species_init_def)
  have s3: "\<exists>i<length [1, 0::nat]. [1, 0] ! i = (1::nat)
      \<and> surface_id (surface_of example_heap ([1, 0] ! i)) = 3
      \<and> (\<forall>j<i. surface_id (surface_of example_heap ([1, 0] ! j)) \<noteq> 3)"
    by (rule exI[of _ 0]) (simp add: example_heap_def)
  have s4: "\<forall>a\<in>set [1, 0::nat]. surface_id (surface_of example_heap a) \<noteq> 7"
    by (simp add: example_heap_def)
  have s5: "\<forall>a\<in>set [1, 0::nat]. surface_id (surface_of example_heap a) \<noteq> - 12"
    by (simp add: example_heap_def)
  have m: "str_int 7 = ''7''" "str_int (- 12) = ''-12''"
    by (simp_all add: str_int_def digit_char_def)
  from lookup_first_match [of example_heap "''H''" "[2, 1, 0]" 2 3 "[1, 0]" 1] s1 s3
  have a: "find_species_from_name example_heap ''H'' [2, 1, 0] = Inr 2"
    and c: "find_surface_from_id example_heap 3 [1, 0] = Inr 1" by blast+
  from lookup_first_match [of example_heap "''T''" "[2, 1, 0]" 0 7 "[1, 0]" 0] s2 s4
  have b: "find_species_from_name example_heap ''T'' [2, 1, 0]
        = Inl (ValueError (''Species '' @ ''T'' @ '' not found in list of species''))"
    and d: "find_surface_from_id example_heap 7 [1, 0]
        = Inl (ValueError (''id '' @ str_int 7 @ '' not found in list of surfaces''))"
    and e: "decimal_numeral (str_int 7) (nat 7)" by simp_all
  from lookup_first_match [of example_heap "''T''" "[2, 1, 0]" 0 "- 12" "[1, 0]" 0] s5
  have f: "find_surface_from_id example_heap (- 12) [1, 0]
        = Inl (ValueError (''id '' @ str_int (- 12) @ '' not found in list of surfaces''))"
    and g: "\<exists>ds. str_int (- 12) = CHR ''-'' # ds \<and> decimal_numeral ds (nat (- (- 12)))"
    by simp_all
  from g m(2) have g': "decimal_numeral ''12'' 12" by simp
  from a b c d e f g' m show ?thesis by simp
qed

section \<open>Boundary facets of a surface subdomain\<close>

text \<open>
  Claim C1, as amended. \<^verbatim>\<open>locate_boundary_facet_indices\<close> returns the first index of
  the sequence that the mesh library reports for the accept-all marker, and raises
  IndexError when that sequence is empty. The docstring of the method says the same:
  "the first value in the list of surface facet indices of the subdomain".
\<close>

theorem locate_boundary_facet_indices_first:
  "(locate_entities_boundary mesh fdim (\<lambda>x. True) = i # rest \<longrightarrow>
      locate_boundary_facet_indices locate_entities_boundary self mesh fdim = Inr (PyInt i))
   \<and> (locate_entities_boundary mesh fdim (\<lambda>x. True) = [] \<longrightarrow>
      locate_boundary_facet_indices locate_entities_boundary self mesh fdim = Inl IndexError)"
  by (simp add: locate_boundary_facet_indices_def)

theorem locate_boundary_facet_indices_first_witness:
  "example_service 0 1 (\<lambda>x. True) = [4, 7, 9]
   \<and> locate_boundary_facet_indices example_service \<lparr>surface_id = 3\<rparr> 0 1 = Inr (PyInt 4)
   \<and> example_service 0 2 (\<lambda>x. True) = []
   \<and> locate_boundary_facet_indices example_service \<lparr>surface_id = 3\<rparr> 0 2 = Inl IndexError"
proof -
  have a: "example_service 0 1 (\<lambda>x. True) = 4 # [7, 9]"
    and b: "example_service 0 2 (\<lambda>x. True) = []"
    by (simp_all add: example_service_def)
  from a locate_boundary_facet_indices_first
      [of example_service 0 1 4 "[7, 9]" "\<lparr>surface_id = 3\<rparr>"]
  have c: "locate_boundary_facet_indices example_service \<lparr>surface_id = 3\<rparr> 0 1 = Inr (PyInt 4)"
    by blast
  from b locate_boundary_facet_indices_first
      [of example_service 0 2 0 "[]" "\<lparr>surface_id = 3\<rparr>"]
  have d: "locate_boundary_facet_indices example_service \<lparr>surface_id = 3\<rparr> 0 2 = Inl IndexError"
    by blast
  from a b c d show ?thesis by simp
qed

text \<open>
  Claim C1 as stated fails: where the library reports the indices 4, 7, 9 the method
  returns the index 4, not the sequence.
\<close>

theorem locate_boundary_facet_indices_counterexample:
  "example_service 0 1 (\<lambda>x. True) = [4, 7, 9]
   \<and> locate_boundary_facet_indices example_service \<lparr>surface_id = 3\<rparr> 0 1
        = Inr (PyInt 4 :: nat pyval)
   \<and> locate_boundary_facet_indices example_service \<lparr>surface_id = 3\<rparr> 0 1
        \<noteq> Inr (PyList (map PyInt (example_service 0 1 (\<lambda>x. True))) :: nat pyval)"
  by (simp add: locate_boundary_facet_indices_def example_service_def)

section \<open>Reading the concentration of an implicit species\<close>

text \<open>
  With \<^verbatim>\<open>others\<close> a list, the guard \<^verbatim>\<open>len(self.others) > 0\<close> changes nothing:
  the loop over an empty list finds no species.
\<close>

lemma concentration_Some:
  "others self = Some os \<Longrightarrow>
     concentration h self =
       (case check_others h self os of
          Some e \<Rightarrow> Inl e
        | None \<Rightarrow>
            (case value_fenics self of
               None \<Rightarrow> Inl AttributeError
             | Some V \<Rightarrow>
                 (case py_sum (tensor_type_of h)
                         (map (\<lambda>other. solution (species_of h other)) os) of
                    Inl e \<Rightarrow> Inl e
                  | Inr S \<Rightarrow> py_sub (tensor_type_of h) V S)))"
  by (cases os) (auto simp: concentration_def)

lemma check_others_find:
  "check_others h self os =
     map_option
       (\<lambda>other. ValueError (''Cannot compute concentration of '' @ str_name (implicit_species.name self)
                   @ '' because '' @ str_name (species.name (species_of h other))
                   @ '' has no solution''))
       (List.find (\<lambda>other. solution (species_of h other) = None) os)"
  by (induction os) simp_all

lemma check_others_None_iff:
  "check_others h self os = None \<longleftrightarrow> (\<forall>a\<in>set os. solution (species_of h a) \<noteq> None)"
  by (induction os) simp_all

lemma check_others_first:
  assumes "i < length os" and "solution (species_of h (os ! i)) = None"
    and "\<forall>j<i. solution (species_of h (os ! j)) \<noteq> None"
  shows "check_others h self os =
     Some (ValueError (''Cannot compute concentration of '' @ str_name (implicit_species.name self)
                   @ '' because '' @ str_name (species.name (species_of h (os ! i)))
                   @ '' has no solution''))"
proof -
  have "List.find (\<lambda>other. solution (species_of h other) = None) os = Some (os ! i)"
    unfolding find_Some_iff using assms by blast
  then show ?thesis by (simp add: check_others_find)
qed

lemma check_others_Some:
  assumes "a \<in> set os" and "solution (species_of h a) = None"
  shows "\<exists>b\<in>set os. solution (species_of h b) = None \<and> check_others h self os =
     Some (ValueError (''Cannot compute concentration of '' @ str_name (implicit_species.name self)
                   @ '' because '' @ str_name (species.name (species_of h b))
                   @ '' has no solution''))"
proof -
  from assms have "List.find (\<lambda>other. solution (species_of h other) = None) os \<noteq> None"
    by (auto simp: find_None_iff)
  then obtain b where b: "List.find (\<lambda>other. solution (species_of h other) = None) os = Some b"
    by blast
  then have "b \<in> set os" "solution (species_of h b) = None"
    by (auto simp: find_Some_iff)
  with b show ?thesis by (auto simp: check_others_find)
qed

text \<open>
  The sum and the difference raise nothing but TypeError and the ValueErrors of the
  field library, whose messages are not the message of the loop.
\<close>

lemma num_op_error: "num_op iop rop a b = Inl e \<Longrightarrow> e = TypeError"
  by (auto simp: num_op_def split: option.splits)

lemma ufl_sum_check_error: "ufl_sum_check \<tau> a b = Some e \<Longrightarrow> field_error e"
  by (auto simp: ufl_sum_check_def field_error_def split: if_splits)

lemma py_add_error: "py_add \<tau> a b = Inl e \<Longrightarrow> field_error e"
  by (auto simp: py_add_def field_error_def split: if_splits option.splits pyval.splits
        dest: num_op_error ufl_sum_check_error [unfolded field_error_def])

lemma py_sub_error: "py_sub \<tau> a b = Inl e \<Longrightarrow> field_error e"
  by (auto simp: py_sub_def field_error_def split: if_splits option.splits
        dest: num_op_error ufl_sum_check_error [unfolded field_error_def])

lemma py_sum_from_error: "py_sum_from \<tau> acc xs = Inl e \<Longrightarrow> field_error e"
proof (induction \<tau> acc xs rule: py_sum_from.induct)
  case (1 \<tau> acc)
  then show ?case by simp
next
  case (2 \<tau> acc rest)
  then show ?case by (simp add: field_error_def)
next
  case (3 \<tau> acc f rest)
  then show ?case by (auto split: sum.splits dest: py_add_error)
qed

lemma field_error_not_unresolved:
  "\<not> field_error (ValueError (''Cannot compute concentration of '' @ a @ '' because '' @ b
        @ '' has no solution''))"
  by (simp add: field_error_def different_shapes_def different_free_indices_def
        different_index_dimensions_def)

lemma concentration_solved_error:
  assumes "others self = Some os" and "\<forall>a\<in>set os. solution (species_of h a) \<noteq> None"
    and "concentration h self = Inl e"
  shows "e = AttributeError \<or> field_error e"
proof -
  from assms(2) have "check_others h self os = None" by (simp add: check_others_None_iff)
  with assms(3) show ?thesis
    unfolding concentration_Some [OF assms(1)]
    by (auto simp: py_sum_def split: option.splits sum.splits
          dest: py_sum_from_error py_sub_error)
qed

text \<open>
  Claim C6, as amended. For an implicit species whose \<^verbatim>\<open>others\<close> is a non-empty
  list, reading \<^verbatim>\<open>concentration\<close> raises the ValueError whose message names the
  implicit species and a species of the list exactly when some species of the list has no
  solution; the species named is the first one of the list without a solution.
\<close>

theorem concentration_unresolved_dependency:
  assumes "others self = Some os" and "os \<noteq> []"
  shows "((\<exists>a\<in>set os. concentration h self =
              Inl (ValueError (''Cannot compute concentration of ''
                     @ str_name (implicit_species.name self) @ '' because ''
                     @ str_name (species.name (species_of h a)) @ '' has no solution'')))
            \<longleftrightarrow> (\<exists>a\<in>set os. solution (species_of h a) = None))
       \<and> (\<forall>i<length os. solution (species_of h (os ! i)) = None
              \<and> (\<forall>j<i. solution (species_of h (os ! j)) \<noteq> None) \<longrightarrow>
            concentration h self =
              Inl (ValueError (''Cannot compute concentration of ''
                     @ str_name (implicit_species.name self) @ '' because ''
                     @ str_name (species.name (species_of h (os ! i))) @ '' has no solution'')))"
proof (intro conjI allI impI)
  show "(\<exists>a\<in>set os. concentration h self =
              Inl (ValueError (''Cannot compute concentration of ''
                     @ str_name (implicit_species.name self) @ '' because ''
                     @ str_name (species.name (species_of h a)) @ '' has no solution'')))
          \<longleftrightarrow> (\<exists>a\<in>set os. solution (species_of h a) = None)"
  proof
    assume "\<exists>a\<in>set os. concentration h self =
              Inl (ValueError (''Cannot compute concentration of ''
                     @ str_name (implicit_species.name self) @ '' because ''
                     @ str_name (species.name (species_of h a)) @ '' has no solution''))"
    then obtain a where a: "concentration h self =
              Inl (ValueError (''Cannot compute concentration of ''
                     @ str_name (implicit_species.name self) @ '' because ''
                     @ str_name (species.name (species_of h a)) @ '' has no solution''))"
      by blast
    show "\<exists>a\<in>set os. solution (species_of h a) = None"
    proof (rule ccontr)
      assume "\<not> (\<exists>a\<in>set os. solution (species_of h a) = None)"
      then have "\<forall>a\<in>set os. solution (species_of h a) \<noteq> None" by simp
      from concentration_solved_error [OF assms(1) this a]
      show False using field_error_not_unresolved by blast
    qed
  next
    assume "\<exists>a\<in>set os. solution (species_of h a) = None"
    then obtain a where "a \<in> set os" "solution (species_of h a) = None" by blast
    from check_others_Some [OF this, of self] obtain b where
      b: "b \<in> set os" "check_others h self os =
        Some (ValueError (''Cannot compute concentration of '' @ str_name (implicit_species.name self)
                   @ '' because '' @ str_name (species.name (species_of h b))
                   @ '' has no solution''))" by blast
    from b(2) have "concentration h self =
        Inl (ValueError (''Cannot compute concentration of '' @ str_name (implicit_species.name self)
                   @ '' because '' @ str_name (species.name (species_of h b))
                   @ '' has no solution''))"
      by (simp add: concentration_Some [OF assms(1)])
    with b(1) show "\<exists>a\<in>set os. concentration h self =
              Inl (ValueError (''Cannot compute concentration of ''
                     @ str_name (implicit_species.name self) @ '' because ''
                     @ str_name (species.name (species_of h a)) @ '' has no solution''))"
      by blast
  qed
next
  fix i
  assume i: "i < length os" and
    "solution (species_of h (os ! i)) = None \<and> (\<forall>j<i. solution (species_of h (os ! j)) \<noteq> None)"
  then have "check_others h self os =
     Some (ValueError (''Cannot compute concentration of '' @ str_name (implicit_species.name self)
                   @ '' because '' @ str_name (species.name (species_of h (os ! i)))
                   @ '' has no solution''))"
    using check_others_first [of i os h self] by blast
  then show "concentration h self =
              Inl (ValueError (''Cannot compute concentration of ''
                     @ str_name (implicit_species.name self) @ '' because ''
                     @ str_name (species.name (species_of h (os ! i))) @ '' has no solution''))"
    by (simp add: concentration_Some [OF assms(1)])
qed

text \<open>
  In the example store the species A at address 3 has a solution and the two species
  named H at addresses 1 and 2 have none.
\<close>

theorem concentration_unresolved_dependency_witness:
  "others (example_implicit\<lparr>others := Some [3, 1, 2]\<rparr>) = Some [3, 1, 2]
   \<and> [3, 1, 2::nat] \<noteq> []
   \<and> solution (species_of example_heap 1) = None
   \<and> concentration example_heap (example_implicit\<lparr>others := Some [3, 1, 2]\<rparr>)
       = Inl (ValueError ''Cannot compute concentration of empty because H has no solution'')"
proof -
  let ?s = "example_implicit\<lparr>others := Some [3, 1, 2]\<rparr>"
  have a: "others ?s = Some [3, 1, 2]" by simp
  have b: "[3, 1, 2::nat] \<noteq> []" by simp
  have c: "(1::nat) < length [3, 1, 2::nat]" by simp
  have d: "solution (species_of example_heap ([3, 1, 2] ! 1)) = None
      \<and> (\<forall>j<1. solution (species_of example_heap ([3, 1, 2] ! j)) \<noteq> None)"
    by (simp add: example_heap_def Species_init_def)
  from concentration_unresolved_dependency [OF a b, of example_heap] c d
  have "concentration example_heap ?s =
      Inl (ValueError (''Cannot compute concentration of ''
             @ str_name (implicit_species.name ?s) @ '' because ''
             @ str_name (species.name (species_of example_heap ([3, 1, 2] ! 1))) @ '' has no solution''))"
    by blast
  moreover have "str_name (implicit_species.name ?s) = ''empty''"
    by (simp add: example_implicit_def ImplicitSpecies_init_def)
  moreover have "str_name (species.name (species_of example_heap ([3, 1, 2] ! 1))) = ''H''"
    by (simp add: example_heap_def Species_init_def)
  moreover have "solution (species_of example_heap 1) = None"
    by (simp add: example_heap_def Species_init_def)
  ultimately show ?thesis using a b by simp
qed

text \<open>
  Claim C6 as stated fails: a ValueError is raised although every species of the list
  has a solution. \<^verbatim>\<open>create_value_fenics\<close> binds the spatial coordinate of the mesh
  for \<^verbatim>\<open>n = lambda x: x\<close>; the coordinate is a vector and the solution a scalar, and
  the field library refuses their difference.
\<close>

theorem concentration_unresolved_dependency_counterexample:
  "create_value_fenics (ImplicitSpecies_init (FunctionObject identity_profile) (Some [3]) (Some ''empty''))
       0 (Constant 0 (PyFloat 0))
     = Inr ((ImplicitSpecies_init (FunctionObject identity_profile) (Some [3]) (Some ''empty''))
              \<lparr>value_fenics := Some (SpatialCoordinate 0)\<rparr>)
   \<and> solution (species_of example_heap 3) = Some 10
   \<and> concentration example_heap
        ((ImplicitSpecies_init (FunctionObject identity_profile) (Some [3]) (Some ''empty''))
              \<lparr>value_fenics := Some (SpatialCoordinate 0)\<rparr>)
     = Inl (ValueError (''Can'' @ [CHR 0x27] @ ''t add expressions with different shapes.''))"
  by (simp add: create_value_fenics_def concentration_def ImplicitSpecies_init_def
        identity_profile_def co_varnames_def example_heap_def Species_init_def py_sum_def
        py_add_def py_sub_def ufl_operands_def ufl_sum_check_def scalar_type_def
        different_shapes_def)

text \<open>
  The sum over bound solutions of one tensor type is the chain of their additions, the
  leading 0 dropped, and its value at a point is the sum of the values of the solutions
  there.
\<close>

lemma number_not_ufl: "is_number v \<Longrightarrow> \<not> is_ufl v"
  by (cases v) simp_all

lemma ufl_not_zero: "is_ufl v \<Longrightarrow> \<not> is_zero v"
  by (cases v) simp_all

lemma ufl_sum_check_same:
  "ufl_type \<tau> b = ufl_type \<tau> a \<Longrightarrow> ufl_sum_check \<tau> a b = None"
  by (simp add: ufl_sum_check_def)

lemma py_add_ufl:
  assumes "is_ufl a" and "is_ufl b" and "ufl_type \<tau> b = ufl_type \<tau> a"
  shows "py_add \<tau> a b = Inr (Add a b)"
  using assms number_not_ufl [of a] ufl_not_zero [of b]
  by (auto simp: py_add_def ufl_operands_def ufl_sum_check_same)

lemma py_sum_from_ufl:
  assumes "is_ufl acc" and "\<forall>f\<in>set fs. ufl_type \<tau> (Function f) = ufl_type \<tau> acc"
  shows "py_sum_from \<tau> acc (map Some fs) = Inr (foldl (\<lambda>a f. Add a (Function f)) acc fs)"
  using assms
proof (induction fs arbitrary: acc)
  case Nil
  then show ?case by simp
next
  case (Cons f fs)
  then have "py_add \<tau> acc (Function f) = Inr (Add acc (Function f))"
    by (simp add: py_add_ufl)
  moreover have "py_sum_from \<tau> (Add acc (Function f)) (map Some fs)
      = Inr (foldl (\<lambda>a f. Add a (Function f)) (Add acc (Function f)) fs)"
    using Cons.prems by (intro Cons.IH) simp_all
  ultimately show ?case by simp
qed

lemma py_sum_first:
  "py_sum \<tau> (map Some (f # fs)) = py_sum_from \<tau> (Function f) (map Some fs)"
  by (simp add: py_sum_def py_add_def)

lemma value_at_foldl_Add:
  "value_at \<rho> (foldl (\<lambda>a f. Add a (Function f)) acc fs)
     = value_at \<rho> acc + (\<Sum>f\<leftarrow>fs. \<rho> (Function f))"
  by (induction fs arbitrary: acc) simp_all

lemma foldl_Add_ufl:
  "is_ufl acc \<Longrightarrow> is_ufl (foldl (\<lambda>a f. Add a (Function f)) acc fs)"
  by (induction fs arbitrary: acc) simp_all

lemma foldl_Add_type:
  "ufl_type \<tau> (foldl (\<lambda>a f. Add a (Function f)) acc fs) = ufl_type \<tau> acc"
  by (induction fs arbitrary: acc) simp_all

lemma py_sub_ufl:
  assumes "is_ufl a \<or> is_number a" and "is_ufl b" and "ufl_type \<tau> b = ufl_type \<tau> a"
  shows "py_sub \<tau> a b = Inr (Sub a b)"
  using assms number_not_ufl [of b] ufl_not_zero [of b]
  by (auto simp: py_sub_def ufl_operands_def ufl_sum_check_same)

lemma py_sub_zero:
  assumes "is_ufl a \<or> is_number a" and "ufl_type \<tau> a = scalar_type"
  shows "\<exists>c. py_sub \<tau> a (PyInt 0) = Inr c \<and> (\<forall>\<rho>. value_at \<rho> c = value_at \<rho> a)"
proof (cases "is_number a")
  case True
  then show ?thesis by (cases a) (simp_all add: py_sub_def num_op_def)
next
  case False
  with assms have "is_ufl a" by blast
  with False assms(2) have "py_sub \<tau> a (PyInt 0) = Inr a"
    by (simp add: py_sub_def ufl_operands_def ufl_sum_check_def)
  then show ?thesis by simp
qed

text \<open>
  Claim C7, as amended. For an implicit species whose \<^verbatim>\<open>value_fenics\<close> is bound to
  a field or a number \<open>V\<close> and whose \<^verbatim>\<open>others\<close> all have bound solutions \<open>sols\<close>
  of the tensor type of \<open>V\<close> (\<open>V\<close> a scalar when the list is empty), reading
  \<^verbatim>\<open>concentration\<close> returns an expression whose value at every point is the value of
  \<open>V\<close> minus the sum of the values of the solutions: for two species,
  \<open>V - sA - sB\<close>.
\<close>

theorem concentration_value:
  assumes "others self = Some os"
    and "map (\<lambda>other. solution (species_of h other)) os = map Some sols"
    and "value_fenics self = Some V"
    and "is_ufl V \<or> is_number V"
    and "\<forall>s\<in>set sols. ufl_type (tensor_type_of h) (Function s) = ufl_type (tensor_type_of h) V"
    and "sols = [] \<longrightarrow> ufl_type (tensor_type_of h) V = scalar_type"
  shows "\<exists>c. concentration h self = Inr c
           \<and> (\<forall>\<rho>. value_at \<rho> c = value_at \<rho> V - (\<Sum>s\<leftarrow>sols. \<rho> (Function s)))"
proof -
  let ?\<tau> = "tensor_type_of h"
  have "\<forall>a\<in>set os. solution (species_of h a) \<noteq> None"
  proof
    fix a assume "a \<in> set os"
    then have "solution (species_of h a) \<in> set (map (\<lambda>other. solution (species_of h other)) os)"
      by simp
    with assms(2) show "solution (species_of h a) \<noteq> None" by auto
  qed
  then have chk: "check_others h self os = None" by (simp add: check_others_None_iff)
  have "\<exists>c. (case py_sum ?\<tau> (map Some sols) of Inl e \<Rightarrow> Inl e | Inr S \<Rightarrow> py_sub ?\<tau> V S) = Inr c
           \<and> (\<forall>\<rho>. value_at \<rho> c = value_at \<rho> V - (\<Sum>s\<leftarrow>sols. \<rho> (Function s)))"
  proof (cases sols)
    case Nil
    with assms(6) have "ufl_type ?\<tau> V = scalar_type" by simp
    from py_sub_zero [OF assms(4) this] Nil show ?thesis by (simp add: py_sum_def)
  next
    case (Cons f fs)
    let ?S = "foldl (\<lambda>a f. Add a (Function f)) (Function f) fs"
    from assms(5) Cons have ty: "ufl_type ?\<tau> (Function f) = ufl_type ?\<tau> V"
      "\<forall>g\<in>set fs. ufl_type ?\<tau> (Function g) = ufl_type ?\<tau> (Function f)" by simp_all
    have sum: "py_sum ?\<tau> (map Some sols) = Inr ?S"
      unfolding Cons py_sum_first using ty(2) by (intro py_sum_from_ufl) simp_all
    have "is_ufl ?S" by (rule foldl_Add_ufl) simp
    moreover have "ufl_type ?\<tau> ?S = ufl_type ?\<tau> V" using ty(1) by (simp add: foldl_Add_type)
    ultimately have "py_sub ?\<tau> V ?S = Inr (Sub V ?S)"
      using assms(4) by (intro py_sub_ufl) simp_all
    with sum Cons show ?thesis by (simp add: value_at_foldl_Add)
  qed
  then show ?thesis
    using chk by (simp add: concentration_Some [OF assms(1)] assms(2,3))
qed

text \<open>
  The example implicit species depends on the species A and B, whose solutions are the
  scalar functions 10 and 11; its total is the scalar function 9.
\<close>

theorem concentration_value_witness:
  "others example_implicit = Some [3, 4]
   \<and> map (\<lambda>other. solution (species_of example_heap other)) [3, 4] = map Some [10, 11]
   \<and> value_fenics example_implicit = Some (Function 9)
   \<and> (\<exists>c. concentration example_heap example_implicit = Inr c
         \<and> (\<forall>\<rho>. value_at \<rho> c = \<rho> (Function 9) - \<rho> (Function 10) - \<rho> (Function 11)))"
proof -
  have a: "others example_implicit = Some [3, 4]"
    and c: "value_fenics example_implicit = Some (Function 9)"
    by (simp_all add: example_implicit_def ImplicitSpecies_init_def)
  have b: "map (\<lambda>other. solution (species_of example_heap other)) [3, 4] = map Some [10, 11]"
    by (simp add: example_heap_def)
  have d: "is_ufl (Function 9 :: nat pyval) \<or> is_number (Function 9 :: nat pyval)"
    by simp
  have e: "\<forall>s\<in>set [10, 11]. ufl_type (tensor_type_of example_heap) (Function s)
      = ufl_type (tensor_type_of example_heap) (Function 9)"
    by (simp add: example_heap_def)
  have f: "[10, 11::nat] = [] \<longrightarrow> ufl_type (tensor_type_of example_heap) (Function 9) = scalar_type"
    by simp
  from concentration_value [OF a b c d e f] obtain r where
    r: "concentration example_heap example_implicit = Inr r"
    "\<forall>\<rho>. value_at \<rho> r = value_at \<rho> (Function 9) - (\<Sum>s\<leftarrow>[10, 11]. \<rho> (Function s))"
    by blast
  from r(2) have "\<forall>\<rho>. value_at \<rho> r = \<rho> (Function 9) - \<rho> (Function 10) - \<rho> (Function 11)" by simp
  with r(1) a b c show ?thesis by blast
qed

text \<open>
  Claim C7 as stated fails: with the total bound to the spatial coordinate of the mesh,
  as \<^verbatim>\<open>create_value_fenics\<close> binds it for \<^verbatim>\<open>n = lambda x: x\<close>, and both solutions
  bound, reading the concentration raises the ValueError of the field library and returns
  nothing.
\<close>

theorem concentration_value_counterexample:
  "create_value_fenics (example_implicit\<lparr>implicit_species.n := FunctionObject identity_profile\<rparr>)
       0 (Constant 0 (PyFloat 0))
     = Inr (example_implicit\<lparr>implicit_species.n := FunctionObject identity_profile,
                             value_fenics := Some (SpatialCoordinate 0)\<rparr>)
   \<and> others (example_implicit\<lparr>implicit_species.n := FunctionObject identity_profile,
                             value_fenics := Some (SpatialCoordinate 0)\<rparr>) = Some [3, 4]
   \<and> map (\<lambda>other. solution (species_of example_heap other)) [3, 4] = map Some [10, 11]
   \<and> concentration example_heap
        (example_implicit\<lparr>implicit_species.n := FunctionObject identity_profile,
                          value_fenics := Some (SpatialCoordinate 0)\<rparr>)
     = Inl (ValueError (''Can'' @ [CHR 0x27] @ ''t add expressions with different shapes.''))
   \<and> \<not> (\<exists>c. concentration example_heap
        (example_implicit\<lparr>implicit_species.n := FunctionObject identity_profile,
                          value_fenics := Some (SpatialCoordinate 0)\<rparr>) = Inr c)"
  by (simp add: create_value_fenics_def concentration_def ImplicitSpecies_init_def
        example_implicit_def identity_profile_def co_varnames_def example_heap_def
        Species_init_def py_sum_def py_add_def py_sub_def ufl_operands_def ufl_sum_check_def
        scalar_type_def different_shapes_def)

text \<open>
  Claim C10. An implicit species constructed with \<^verbatim>\<open>others\<close> left at its default
  \<^verbatim>\<open>None\<close> raises TypeError when its concentration is read, from \<^verbatim>\<open>len(None)\<close>,
  whatever else has been bound; the ValueError of the loop is raised only when
  \<^verbatim>\<open>others\<close> is a list.
\<close>

theorem concentration_others_None:
  "concentration h (ImplicitSpecies_init n0 None name0) = Inl TypeError
   \<and> (others self = None \<longrightarrow> concentration h self = Inl TypeError)
   \<and> (concentration h self = Inl (ValueError msg) \<longrightarrow> (\<exists>os. others self = Some os))"
  by (auto simp: concentration_def ImplicitSpecies_init_def split: option.splits)

theorem concentration_others_None_witness:
  "others (ImplicitSpecies_init (Data (PyInt 1)) None (Some ''empty'') :: nat implicit_species) = None
   \<and> concentration example_heap (ImplicitSpecies_init (Data (PyInt 1)) None (Some ''empty''))
        = Inl TypeError
   \<and> concentration example_heap
        ((ImplicitSpecies_init (Data (PyInt 1)) None (Some ''empty''))
           \<lparr>value_fenics := Some (Constant 0 (PyInt 1))\<rparr>) = Inl TypeError"
proof -
  let ?s = "ImplicitSpecies_init (Data (PyInt 1)) None (Some ''empty'') :: nat implicit_species"
  have a: "others ?s = None" "others (?s\<lparr>value_fenics := Some (Constant 0 (PyInt 1))\<rparr>) = None"
    by (simp_all add: ImplicitSpecies_init_def)
  from concentration_others_None [of example_heap "Data (PyInt 1)" "Some ''empty''"
      "?s\<lparr>value_fenics := Some (Constant 0 (PyInt 1))\<rparr>"] a
  show ?thesis by blast
qed

section \<open>Binding and refreshing the value of an implicit species\<close>

text \<open>
  Claim C4. For a numeric \<^verbatim>\<open>n\<close>, \<^verbatim>\<open>create_value_fenics\<close> binds the constant
  field on the mesh whose value is \<^verbatim>\<open>n\<close>, and \<^verbatim>\<open>update_density\<close> at any time
  returns the species as it was.
\<close>

theorem numeric_n_constant:
  assumes "implicit_species.n self = Data v" and "is_number v"
  shows "\<exists>self'. create_value_fenics self mesh t = Inr self'
           \<and> self' = self\<lparr>value_fenics := Some (Constant mesh v)\<rparr>
           \<and> update_density self' t' = Inr self'
           \<and> value_fenics self' = Some (Constant mesh v)"
  using assms
  by (simp add: create_value_fenics_def update_density_def as_fenics_constant_def number_not_ufl)

theorem numeric_n_constant_witness:
  "is_number (PyFloat 2 :: nat pyval)
   \<and> create_value_fenics (ImplicitSpecies_init (Data (PyFloat 2)) (Some [3]) None) (0::nat)
        (Constant 0 (PyFloat 0))
      = Inr ((ImplicitSpecies_init (Data (PyFloat 2)) (Some [3]) None)
               \<lparr>value_fenics := Some (Constant 0 (PyFloat 2))\<rparr>)
   \<and> update_density ((ImplicitSpecies_init (Data (PyFloat 2)) (Some [3]) None)
               \<lparr>value_fenics := Some (Constant 0 (PyFloat 2))\<rparr>) (PyFloat 5)
      = Inr ((ImplicitSpecies_init (Data (PyFloat 2)) (Some [3]) None)
               \<lparr>value_fenics := Some (Constant (0::nat) (PyFloat 2))\<rparr>)"
proof -
  let ?s = "ImplicitSpecies_init (Data (PyFloat 2)) (Some [3]) None :: nat implicit_species"
  have a: "implicit_species.n ?s = Data (PyFloat 2)" by (simp add: ImplicitSpecies_init_def)
  have b: "is_number (PyFloat 2 :: nat pyval)" by simp
  from numeric_n_constant [OF a b, of 0 "Constant 0 (PyFloat 0)" "PyFloat 5"] b
  show ?thesis by auto
qed

text \<open>
  The branch for a function whose \<^verbatim>\<open>co_varnames\<close> hold \<^verbatim>\<open>t\<close> and neither
  \<^verbatim>\<open>x\<close> nor \<^verbatim>\<open>T\<close>: the function is evaluated at \<^verbatim>\<open>float(t)\<close>, a number is
  wrapped as a constant and anything else raises ValueError. \<^verbatim>\<open>update_density\<close>
  overwrites the value of the constant with the function's value at the new time.
\<close>

lemma time_only_bind:
  assumes "implicit_species.n self = FunctionObject f"
    and "''t'' \<in> set (co_varnames f)" and "''x'' \<notin> set (co_varnames f)"
    and "''T'' \<notin> set (co_varnames f)"
    and "py_float t = Inr tf" and "call f [''t'' \<mapsto> tf] = Inr r"
  shows "create_value_fenics self mesh t =
           (if is_number r then Inr (self\<lparr>value_fenics := Some (Constant mesh r)\<rparr>)
            else Inl (ValueError (''self.value should return a float or an int, not ''
                        @ type_repr r @ '' '')))"
  using assms by (simp add: create_value_fenics_def as_fenics_constant_def)

lemma time_only_refresh:
  assumes "implicit_species.n self = FunctionObject f"
    and "''t'' \<in> set (co_varnames f)"
    and "value_fenics self = Some (Constant mesh old)"
    and "call f [''t'' \<mapsto> t] = Inr r"
  shows "update_density self t = Inr (self\<lparr>value_fenics := Some (Constant mesh r)\<rparr>)"
  using assms by (simp add: update_density_def)

text \<open>
  Claim C2, as amended. A function that declares the parameter \<^verbatim>\<open>t\<close> and neither
  \<^verbatim>\<open>x\<close> nor \<^verbatim>\<open>T\<close>, has no local variable of these two names and returns a
  value that is not a number makes \<^verbatim>\<open>create_value_fenics\<close> raise a ValueError whose
  message gives the type returned. The exception is the result of the call: nothing is
  bound and nothing is tried again.
\<close>

theorem time_only_non_number_ValueError:
  assumes "implicit_species.n self = FunctionObject f"
    and "''t'' \<in> set (argnames f)" and "''x'' \<notin> set (argnames f)"
    and "''T'' \<notin> set (argnames f)"
    and "''x'' \<notin> set (localnames f)" and "''T'' \<notin> set (localnames f)"
    and "py_float t = Inr tf" and "call f [''t'' \<mapsto> tf] = Inr r" and "\<not> is_number r"
  shows "create_value_fenics self mesh t =
           Inl (ValueError (''self.value should return a float or an int, not ''
                  @ type_repr r @ '' ''))"
proof -
  have "''t'' \<in> set (co_varnames f)" "''x'' \<notin> set (co_varnames f)"
    "''T'' \<notin> set (co_varnames f)"
    using assms(2-6) by (simp_all add: co_varnames_def)
  from time_only_bind [OF assms(1) this assms(7,8)] assms(9) show ?thesis by simp
qed

theorem time_only_non_number_ValueError_witness:
  "py_float (Constant 0 (PyFloat 3) :: nat pyval) = Inr (PyFloat 3)
   \<and> call time_list [''t'' \<mapsto> PyFloat 3] = Inr (PyList [PyFloat 3])
   \<and> create_value_fenics (ImplicitSpecies_init (FunctionObject time_list) (Some [3]) None) 0
        (Constant 0 (PyFloat 3))
      = Inl (ValueError (''self.value should return a float or an int, not <class ''
               @ [CHR 0x27] @ ''list'' @ [CHR 0x27] @ ''> ''))"
proof -
  let ?s = "ImplicitSpecies_init (FunctionObject time_list) (Some [3]) None :: nat implicit_species"
  have a: "implicit_species.n ?s = FunctionObject time_list"
    by (simp add: ImplicitSpecies_init_def)
  have b: "''t'' \<in> set (argnames time_list)" "''x'' \<notin> set (argnames time_list)"
    "''T'' \<notin> set (argnames time_list)" "''x'' \<notin> set (localnames time_list)"
    "''T'' \<notin> set (localnames time_list)"
    by (simp_all add: time_list_def)
  have c: "py_float (Constant 0 (PyFloat 3) :: nat pyval) = Inr (PyFloat 3)" by simp
  have d: "call time_list [''t'' \<mapsto> PyFloat 3] = Inr (PyList [PyFloat 3])"
    by (simp add: time_list_def)
  have e: "\<not> is_number (PyList [PyFloat 3] :: nat pyval)" by simp
  from time_only_non_number_ValueError [OF a b c d e, of 0] c d
  show ?thesis by (simp add: type_repr_def)
qed

text \<open>
  Claim C2 as stated fails: for \<^verbatim>\<open>def n(t): return [t]\<close> the exception is a
  ValueError, which is not a TypeError.
\<close>

theorem time_only_non_number_counterexample:
  "argnames time_list = [''t'']
   \<and> call time_list [''t'' \<mapsto> PyFloat 3] = Inr (PyList [PyFloat 3])
   \<and> create_value_fenics (ImplicitSpecies_init (FunctionObject time_list) (Some [3]) None) 0
        (Constant 0 (PyFloat 3))
      = Inl (ValueError (''self.value should return a float or an int, not ''
               @ type_repr (PyList [PyFloat 3] :: nat pyval) @ '' ''))
   \<and> create_value_fenics (ImplicitSpecies_init (FunctionObject time_list) (Some [3]) None) 0
        (Constant 0 (PyFloat 3))
      \<noteq> Inl TypeError"
  by (simp add: create_value_fenics_def ImplicitSpecies_init_def time_list_def co_varnames_def)

text \<open>
  For a function of \<^verbatim>\<open>t\<close> alone that has no local variable named \<^verbatim>\<open>x\<close> or
  \<^verbatim>\<open>T\<close> and returns numbers, binding at \<open>t0\<close> gives the constant of value
  \<open>f(float(t0))\<close> and refreshing at \<open>t1\<close> gives the constant of value \<open>f(t1)\<close>.
\<close>

lemma time_only_bind_and_refresh:
  assumes "implicit_species.n self = FunctionObject f"
    and "''t'' \<in> set (argnames f)" and "''x'' \<notin> set (argnames f)"
    and "''T'' \<notin> set (argnames f)"
    and "''x'' \<notin> set (localnames f)" and "''T'' \<notin> set (localnames f)"
    and "py_float t0 = Inr tf" and "call f [''t'' \<mapsto> tf] = Inr v0" and "is_number v0"
    and "call f [''t'' \<mapsto> t1] = Inr v1"
  shows "create_value_fenics self mesh t0 = Inr (self\<lparr>value_fenics := Some (Constant mesh v0)\<rparr>)
       \<and> update_density (self\<lparr>value_fenics := Some (Constant mesh v0)\<rparr>) t1
           = Inr (self\<lparr>value_fenics := Some (Constant mesh v1)\<rparr>)"
proof -
  have v: "''t'' \<in> set (co_varnames f)" "''x'' \<notin> set (co_varnames f)"
    "''T'' \<notin> set (co_varnames f)"
    using assms(2-6) by (simp_all add: co_varnames_def)
  from time_only_bind [OF assms(1) v assms(7,8)] assms(9)
  have "create_value_fenics self mesh t0 = Inr (self\<lparr>value_fenics := Some (Constant mesh v0)\<rparr>)"
    by simp
  moreover have "update_density (self\<lparr>value_fenics := Some (Constant mesh v0)\<rparr>) t1
           = Inr (self\<lparr>value_fenics := Some (Constant mesh v1)\<rparr>)"
    using time_only_refresh [of "self\<lparr>value_fenics := Some (Constant mesh v0)\<rparr>" f mesh v0 t1 v1]
      assms(1,10) v(1) by simp
  ultimately show ?thesis by blast
qed

text \<open>
  Claim C3 fails for a function of \<^verbatim>\<open>t\<close> alone whose body has a local variable
  named \<^verbatim>\<open>x\<close>: \<^verbatim>\<open>co_varnames\<close> lists the local variable, the test "only t is an
  argument" fails, and the function is called with the keywords \<^verbatim>\<open>t\<close> and
  \<^verbatim>\<open>x\<close>, which raises TypeError. The same curve without the local variable is
  bound to the constant 6 at time 3.
\<close>

theorem time_curve_local_x_not_bound:
  "argnames time_curve_local_x = [''t'']
   \<and> call time_curve_local_x [''t'' \<mapsto> PyFloat 3] = Inr (PyFloat 6)
   \<and> create_value_fenics (ImplicitSpecies_init (FunctionObject time_curve) (Some [3]) None) 0
        (Constant 0 (PyFloat 3))
      = Inr ((ImplicitSpecies_init (FunctionObject time_curve) (Some [3]) None)
               \<lparr>value_fenics := Some (Constant 0 (PyFloat 6))\<rparr>)
   \<and> create_value_fenics (ImplicitSpecies_init (FunctionObject time_curve_local_x) (Some [3]) None)
        0 (Constant 0 (PyFloat 3))
      = Inl TypeError"
  by (simp add: create_value_fenics_def ImplicitSpecies_init_def time_curve_local_x_def
        time_curve_def co_varnames_def as_fenics_constant_def)

text \<open>
  For a function that declares \<^verbatim>\<open>x\<close> and has no local variable named \<^verbatim>\<open>t\<close>,
  the call passes \<^verbatim>\<open>x\<close>, and \<^verbatim>\<open>t\<close> exactly when it is declared, and what the
  call returns is bound as it is.
\<close>

lemma space_dependent_bind:
  assumes "implicit_species.n self = FunctionObject f"
    and "''x'' \<in> set (argnames f)" and "''t'' \<notin> set (localnames f)"
    and "call f (if ''t'' \<in> set (argnames f)
                 then [''t'' \<mapsto> t, ''x'' \<mapsto> SpatialCoordinate mesh]
                 else [''x'' \<mapsto> SpatialCoordinate mesh]) = Inr r"
  shows "create_value_fenics self mesh t = Inr (self\<lparr>value_fenics := Some r\<rparr>)"
  using assms by (simp add: create_value_fenics_def co_varnames_def split: if_splits)

text \<open>
  Claim C5 fails for a function of \<^verbatim>\<open>x\<close> alone whose body has a local variable
  named \<^verbatim>\<open>t\<close>: the call passes the keyword \<^verbatim>\<open>t\<close> as well, which the function
  does not accept, and raises TypeError. The same profile without the local variable is
  bound to the expression the function returns.
\<close>

theorem space_profile_local_t_not_bound:
  "argnames space_profile_local_t = [''x'']
   \<and> call space_profile_local_t [''x'' \<mapsto> SpatialCoordinate 0]
        = Inr (Add (SpatialCoordinate 0) (SpatialCoordinate 0))
   \<and> create_value_fenics (ImplicitSpecies_init (FunctionObject space_profile) (Some [3]) None) 0
        (Constant 0 (PyFloat 3))
      = Inr ((ImplicitSpecies_init (FunctionObject space_profile) (Some [3]) None)
               \<lparr>value_fenics := Some (Add (SpatialCoordinate 0) (SpatialCoordinate 0))\<rparr>)
   \<and> create_value_fenics (ImplicitSpecies_init (FunctionObject space_profile_local_t) (Some [3]) None)
        0 (Constant 0 (PyFloat 3))
      = Inl TypeError"
  by (simp add: create_value_fenics_def ImplicitSpecies_init_def space_profile_local_t_def
        space_profile_def co_varnames_def Let_def)

section \<open>Expanding a trap\<close>

text \<open>
  Claim C8. \<^verbatim>\<open>create_species_and_reaction\<close> returns \<^verbatim>\<open>None\<close>. Afterwards
  \<^verbatim>\<open>trapped_concentration\<close> refers to a new species with the trap's name and
  \<^verbatim>\<open>mobile = False\<close>; \<^verbatim>\<open>empty_trap_sites\<close> refers to a new implicit species with
  the trap's \<^verbatim>\<open>n\<close> whose \<^verbatim>\<open>others\<close> is the list of that one species; and
  \<^verbatim>\<open>reaction\<close> is a reaction from the mobile species and the empty trap sites to the
  trapped species, with the trap's four kinetic parameters and its volume. No object
  that existed before is changed.
\<close>

theorem trap_expansion:
  "\<exists>tc ets h' self' r.
     create_species_and_reaction h self = (PyNone, h', self')
     \<and> tc = next_addr h \<and> ets = Suc (next_addr h) \<and> next_addr h' = Suc (Suc (next_addr h))
     \<and> trapped_concentration self' = Some tc
     \<and> species_of h' tc = Species_init (species.name self) False
     \<and> species.name (species_of h' tc) = species.name self
     \<and> mobile (species_of h' tc) = False
     \<and> empty_trap_sites self' = Some ets
     \<and> implicit_of h' ets = ImplicitSpecies_init (trap.n self) (Some [tc]) None
     \<and> implicit_species.n (implicit_of h' ets) = trap.n self
     \<and> others (implicit_of h' ets) = Some [tc]
     \<and> reaction self' = Some r
     \<and> reactant r = [SpeciesRef (mobile_species self), ImplicitRef ets]
     \<and> product r = tc
     \<and> reaction.k_0 r = trap.k_0 self \<and> reaction.E_k r = trap.E_k self
     \<and> reaction.p_0 r = trap.p_0 self \<and> reaction.E_p r = trap.E_p self
     \<and> reaction.volume r = trap.volume self
     \<and> self' = self\<lparr>trapped_concentration := Some tc, empty_trap_sites := Some ets,
                     reaction := Some r\<rparr>
     \<and> (\<forall>a. a \<noteq> tc \<longrightarrow> species_of h' a = species_of h a)
     \<and> (\<forall>a. a \<noteq> ets \<longrightarrow> implicit_of h' a = implicit_of h a)
     \<and> surface_of h' = surface_of h"
  by (simp add: create_species_and_reaction_def new_species_def new_implicit_def
        Reaction_init_def Species_init_def ImplicitSpecies_init_def)

theorem trap_expansion_witness:
  "\<exists>h' self' r.
     create_species_and_reaction example_heap example_trap = (PyNone, h', self')
     \<and> trapped_concentration self' = Some 5
     \<and> species.name (species_of h' 5) = Some ''trapped''
     \<and> mobile (species_of h' 5) = False
     \<and> empty_trap_sites self' = Some 6
     \<and> implicit_species.n (implicit_of h' 6) = Data (PyInt 1)
     \<and> others (implicit_of h' 6) = Some [5]
     \<and> reaction self' = Some r
     \<and> reactant r = [SpeciesRef 0, ImplicitRef 6]
     \<and> product r = 5
     \<and> reaction.k_0 r = PyInt 1 \<and> reaction.E_k r = PyInt 1
     \<and> reaction.p_0 r = PyInt 1 \<and> reaction.E_p r = PyInt 1
     \<and> reaction.volume r = 7
     \<and> species_of h' 0 = species_of example_heap 0"
proof -
  have a: "next_addr example_heap = 5" "species.name example_trap = Some ''trapped''"
    "trap.n example_trap = Data (PyInt 1)" "mobile_species example_trap = 0"
    "trap.k_0 example_trap = PyInt 1" "trap.E_k example_trap = PyInt 1"
    "trap.p_0 example_trap = PyInt 1" "trap.E_p example_trap = PyInt 1"
    "trap.volume example_trap = 7"
    by (simp_all add: example_heap_def example_trap_def Trap_init_def)
  from trap_expansion [of example_heap example_trap] obtain tc ets h' self' r where
    e: "create_species_and_reaction example_heap example_trap = (PyNone, h', self')"
      "tc = next_addr example_heap" "ets = Suc (next_addr example_heap)"
      "trapped_concentration self' = Some tc"
      "species.name (species_of h' tc) = species.name example_trap"
      "mobile (species_of h' tc) = False"
      "empty_trap_sites self' = Some ets"
      "implicit_species.n (implicit_of h' ets) = trap.n example_trap"
      "others (implicit_of h' ets) = Some [tc]"
      "reaction self' = Some r"
      "reactant r = [SpeciesRef (mobile_species example_trap), ImplicitRef ets]"
      "product r = tc"
      "reaction.k_0 r = trap.k_0 example_trap" "reaction.E_k r = trap.E_k example_trap"
      "reaction.p_0 r = trap.p_0 example_trap" "reaction.E_p r = trap.E_p example_trap"
      "reaction.volume r = trap.volume example_trap"
      "\<forall>a. a \<noteq> tc \<longrightarrow> species_of h' a = species_of example_heap a"
    by blast
  from e(2,3) a(1) have t: "tc = 5" "ets = 6" by simp_all
  from e(18) t have "species_of h' 0 = species_of example_heap 0" by simp
  with e t a show ?thesis by (intro exI[of _ h'] exI[of _ self'] exI[of _ r]) simp
qed

end
